theory Spec2Isabelle
  imports Complex_Main "HOL-Library.Word"
begin

section \<open>The collaborator: SignalTracker and the State enumeration\<close>

text \<open>
  \<^verbatim>\<open>TrackingChannel.cpp\<close> drives objects of class \<^verbatim>\<open>SignalTracker\<close> through
  \<^verbatim>\<open>std::unique_ptr\<close>. Neither the class nor the enumeration \<^verbatim>\<open>State\<close> is declared
  in the two source files, so both are parameters of the development:

  \<^item> \<open>'h\<close> is the whole state of one SignalTracker object, \<open>'p\<close> an \<^verbatim>\<open>fftwVector\<close>
    packet, \<open>'sr\<close> a \<^verbatim>\<open>SearchResult\<close>;
  \<^item> \<open>'st\<close> is the enumeration \<^verbatim>\<open>State\<close> with the order \<^verbatim>\<open>std::max\<close> compares by
    (a linear order), and \<open>lossOfLock\<close>, \<open>fullTrack\<close> are its two enumerators the
    channel names;
  \<^item> every member function the channel calls is a field: a call that may change the
    object returns the object's new state. \<^verbatim>\<open>state()\<close>, \<^verbatim>\<open>transmitTime()\<close>,
    \<^verbatim>\<open>satellitePosition()\<close> and \<^verbatim>\<open>latLong()\<close> are read as queries.

  A \<^verbatim>\<open>double\<close> is only handed on, never computed with, and is written \<open>real\<close>;
  \<^verbatim>\<open>Vector3d\<close> is a triple and \<^verbatim>\<open>complex<double>\<close> is \<open>complex\<close>. Each tracker is
  owned by exactly one pointer, so a call on one tracker changes no other.
\<close>

record ('h, 'p, 'sr, 'st) SignalTracker =
  new_SignalTracker :: "real \<Rightarrow> 32 word \<Rightarrow> 'sr \<Rightarrow> int \<Rightarrow> 'h"
  trk_processSamples :: "'p \<Rightarrow> 'h \<Rightarrow> bool \<times> 'h"
  trk_state :: "'h \<Rightarrow> 'st"
  trk_sync :: "'h \<Rightarrow> 'h"
  trk_transmitTime :: "'h \<Rightarrow> real"
  trk_satellitePosition :: "'h \<Rightarrow> real \<Rightarrow> real \<times> real \<times> real"
  trk_latLong :: "'h \<Rightarrow> real \<Rightarrow> complex"
  lossOfLock :: "'st"
  fullTrack :: "'st"

section \<open>TrackingChannel\<close>

text \<open>
  The three members \<^verbatim>\<open>TrackingChannel.cpp\<close> writes. \<^verbatim>\<open>signalTrackers_\<close> is the
  \<^verbatim>\<open>std::list\<close> of owned trackers, front first. \<^verbatim>\<open>inputPackets_\<close> is only ever set
  to 0 and incremented, and never read; its integer type is declared outside the two
  source files, so it is counted in \<open>nat\<close>. A name may not end in an underscore
  here, so the member \<^verbatim>\<open>x_\<close> is the field \<open>m_x\<close>.
\<close>

record 'h TrackingChannel =
  m_signalTrackers :: "'h list"
  m_inputPackets :: nat
  m_prn :: "32 word"

text \<open>
  What a call does when it reaches undefined behaviour: \<^verbatim>\<open>front()\<close> of an empty
  \<^verbatim>\<open>std::list\<close>, followed by a call through the pointer found there.
\<close>

datatype fault = FrontOfEmptyList

subsection \<open>Constructor (lines 4-9)\<close>

text \<open>
  \<^verbatim>\<open>for (int i = -4; i <= 4; ++i) signalTrackers_.push_back(new SignalTracker(fs, prn,
  searchResult, i * 500))\<close>. The first argument of \<open>ctor_loop\<close> is the call of
  \<^verbatim>\<open>new\<close> with the three fixed arguments; \<open>i * 500\<close> stays far inside \<^verbatim>\<open>int\<close>.
\<close>

function ctor_loop :: "(int \<Rightarrow> 'h) \<Rightarrow> int \<Rightarrow> 'h list \<Rightarrow> 'h list" where
  "ctor_loop mk i trackers =
     (if i \<le> 4 then ctor_loop mk (i + 1) (trackers @ [mk (i * 500)]) else trackers)"
  by pat_completeness auto
termination
  by (relation "measure (\<lambda>(mk, i, trackers). nat (5 - i))") auto

declare ctor_loop.simps [simp del]

definition TrackingChannel_ctor ::
  "('h, 'p, 'sr, 'st) SignalTracker \<Rightarrow> real \<Rightarrow> 32 word \<Rightarrow> 'sr \<Rightarrow> 'h TrackingChannel" where
  "TrackingChannel_ctor ops fs prn searchResult =
     \<lparr>m_signalTrackers = ctor_loop (new_SignalTracker ops fs prn searchResult) (- 4) [],
      m_inputPackets = 0,
      m_prn = prn\<rparr>"

subsection \<open>Accessors (lines 15-36)\<close>

definition prn :: "'h TrackingChannel \<Rightarrow> 32 word" where
  "prn ch = m_prn ch"

definition transmitTime ::
  "('h, 'p, 'sr, 'st) SignalTracker \<Rightarrow> 'h TrackingChannel \<Rightarrow> fault + real" where
  "transmitTime ops ch =
     (case m_signalTrackers ch of
        [] \<Rightarrow> Inl FrontOfEmptyList
      | front # _ \<Rightarrow> Inr (trk_transmitTime ops front))"

definition satellitePosition ::
  "('h, 'p, 'sr, 'st) SignalTracker \<Rightarrow> 'h TrackingChannel \<Rightarrow> real
     \<Rightarrow> fault + real \<times> real \<times> real" where
  "satellitePosition ops ch timeOfWeek =
     (case m_signalTrackers ch of
        [] \<Rightarrow> Inl FrontOfEmptyList
      | front # _ \<Rightarrow> Inr (trk_satellitePosition ops front timeOfWeek))"

definition latLong ::
  "('h, 'p, 'sr, 'st) SignalTracker \<Rightarrow> 'h TrackingChannel \<Rightarrow> real \<Rightarrow> fault + complex" where
  "latLong ops ch timeOfWeek =
     (case m_signalTrackers ch of
        [] \<Rightarrow> Inl FrontOfEmptyList
      | front # _ \<Rightarrow> Inr (trk_latLong ops front timeOfWeek))"

text \<open>
  \<^verbatim>\<open>State state = lossOfLock; for (auto &tracker : signalTrackers_) state =
  std::max(state, tracker->state());\<close>
\<close>

fun state_loop :: "('h \<Rightarrow> 'st::linorder) \<Rightarrow> 'st \<Rightarrow> 'h list \<Rightarrow> 'st" where
  "state_loop st s [] = s"
| "state_loop st s (tracker # rest) = state_loop st (max s (st tracker)) rest"

definition state ::
  "('h, 'p, 'sr, 'st::linorder) SignalTracker \<Rightarrow> 'h TrackingChannel \<Rightarrow> 'st" where
  "state ops ch = state_loop (trk_state ops) (lossOfLock ops) (m_signalTrackers ch)"

subsection \<open>sync (lines 63-66)\<close>

fun sync_loop :: "('h \<Rightarrow> 'h) \<Rightarrow> 'h list \<Rightarrow> 'h list" where
  "sync_loop sy [] = []"
| "sync_loop sy (tracker # rest) = sy tracker # sync_loop sy rest"

definition sync ::
  "('h, 'p, 'sr, 'st) SignalTracker \<Rightarrow> 'h TrackingChannel \<Rightarrow> 'h TrackingChannel" where
  "sync ops ch = ch\<lparr>m_signalTrackers := sync_loop (trk_sync ops) (m_signalTrackers ch)\<rparr>"

subsection \<open>processSamples (lines 38-61)\<close>

text \<open>
  Lines 39-44: the erase-while-iterating loop. Each tracker is handed the packet; one
  that answers false is erased, one that answers true stays, in its new state.
\<close>

fun dispatch_loop :: "('h \<Rightarrow> bool \<times> 'h) \<Rightarrow> 'h list \<Rightarrow> 'h list" where
  "dispatch_loop ps [] = []"
| "dispatch_loop ps (tracker # rest) =
     (case ps tracker of
        (ok, tracker') \<Rightarrow>
          if \<not> ok then dispatch_loop ps rest else tracker' # dispatch_loop ps rest)"

text \<open>Lines 39-46: the dispatch loop and \<^verbatim>\<open>++inputPackets_\<close>.\<close>

definition dispatched ::
  "('h, 'p, 'sr, 'st) SignalTracker \<Rightarrow> 'h TrackingChannel \<Rightarrow> 'p \<Rightarrow> 'h TrackingChannel" where
  "dispatched ops ch trackingData =
     ch\<lparr>m_signalTrackers :=
          dispatch_loop (trk_processSamples ops trackingData) (m_signalTrackers ch),
        m_inputPackets := m_inputPackets ch + 1\<rparr>"

text \<open>Lines 50-55: erase every tracker whose state is not fullTrack.\<close>

fun erase_loop :: "('h \<Rightarrow> 'st) \<Rightarrow> 'st \<Rightarrow> 'h list \<Rightarrow> 'h list" where
  "erase_loop st full [] = []"
| "erase_loop st full (tracker # rest) =
     (if st tracker \<noteq> full then erase_loop st full rest
      else tracker # erase_loop st full rest)"

text \<open>Lines 56-58: \<^verbatim>\<open>while (signalTrackers_.size() > 1) signalTrackers_.pop_back();\<close>\<close>

function pop_back_loop :: "'h list \<Rightarrow> 'h list" where
  "pop_back_loop trackers =
     (if 1 < length trackers then pop_back_loop (butlast trackers) else trackers)"
  by pat_completeness auto
termination
  by (relation "measure length") auto

declare pop_back_loop.simps [simp del]

text \<open>Lines 49-58: the body of the \<^verbatim>\<open>if\<close>.\<close>

definition consensus ::
  "('h, 'p, 'sr, 'st) SignalTracker \<Rightarrow> 'h TrackingChannel \<Rightarrow> 'h TrackingChannel" where
  "consensus ops ch =
     (let ch1 = sync ops ch;
          ch2 = ch1\<lparr>m_signalTrackers :=
                  erase_loop (trk_state ops) (fullTrack ops) (m_signalTrackers ch1)\<rparr>
      in ch2\<lparr>m_signalTrackers := pop_back_loop (m_signalTrackers ch2)\<rparr>)"

text \<open>
  The whole call. The result is the returned \<^verbatim>\<open>bool\<close> (the conversion of
  \<^verbatim>\<open>signalTrackers_.size()\<close>) and the channel after the call.
\<close>

definition processSamples ::
  "('h, 'p, 'sr, 'st::linorder) SignalTracker \<Rightarrow> 'h TrackingChannel \<Rightarrow> 'p
     \<Rightarrow> bool \<times> 'h TrackingChannel" where
  "processSamples ops ch trackingData =
     (let ch1 = dispatched ops ch trackingData;
          ch2 = (if 1 < length (m_signalTrackers ch1) \<and> state ops ch1 = fullTrack ops
                 then consensus ops ch1 else ch1)
      in (length (m_signalTrackers ch2) \<noteq> 0, ch2))"

section \<open>Reachable channels\<close>

text \<open>
  A channel a caller can hold: it was constructed, and then \<^verbatim>\<open>processSamples\<close> and
  \<^verbatim>\<open>sync\<close> were called on it any number of times, in any order, with any packets.
  The other member functions change nothing.
\<close>

inductive reachable ::
  "('h, 'p, 'sr, 'st::linorder) SignalTracker \<Rightarrow> real \<Rightarrow> 32 word \<Rightarrow> 'sr
     \<Rightarrow> 'h TrackingChannel \<Rightarrow> bool"
  for ops fs prn searchResult where
  constructed: "reachable ops fs prn searchResult (TrackingChannel_ctor ops fs prn searchResult)"
| after_processSamples:
    "reachable ops fs prn searchResult ch
     \<Longrightarrow> reachable ops fs prn searchResult (snd (processSamples ops ch trackingData))"
| after_sync:
    "reachable ops fs prn searchResult ch \<Longrightarrow> reachable ops fs prn searchResult (sync ops ch)"

section \<open>A scripted tracker\<close>

text \<open>
  A small concrete SignalTracker to run the channel on. It remembers the frequency
  offset it was constructed with, the state it shows, and the state it will show after
  its next \<^verbatim>\<open>sync()\<close>. A packet is a script: for the tracker of a given offset it
  lists the answer of \<^verbatim>\<open>processSamples\<close> and the two states the tracker has
  afterwards; a tracker the script does not list answers true and stays as it is.
  States are numbered, with 0 for lossOfLock and 4 for fullTrack.
\<close>

datatype scripted = Scripted (offset: int) (shown: nat) (settled: nat)

type_synonym script = "(int \<times> bool \<times> nat \<times> nat) list"

definition scripted_processSamples :: "script \<Rightarrow> scripted \<Rightarrow> bool \<times> scripted" where
  "scripted_processSamples p h =
     (case map_of p (offset h) of
        None \<Rightarrow> (True, h)
      | Some (ok, s, s') \<Rightarrow> (ok, Scripted (offset h) s s'))"

definition scripted_sync :: "scripted \<Rightarrow> scripted" where
  "scripted_sync h = Scripted (offset h) (settled h) (settled h)"

definition scripted_ops :: "(scripted, script, unit, nat) SignalTracker" where
  "scripted_ops =
     \<lparr>new_SignalTracker = (\<lambda>fs prn searchResult freqOffset. Scripted freqOffset 1 1),
      trk_processSamples = scripted_processSamples,
      trk_state = shown,
      trk_sync = scripted_sync,
      trk_transmitTime = (\<lambda>h. real_of_int (offset h)),
      trk_satellitePosition = (\<lambda>h timeOfWeek. (real_of_int (offset h), timeOfWeek, 0)),
      trk_latLong = (\<lambda>h timeOfWeek. Complex (real_of_int (offset h)) timeOfWeek),
      lossOfLock = 0,
      fullTrack = 4\<rparr>"

section \<open>Acquisition search: the found/not-found decision\<close>






section \<open>The loops as list functions\<close>

text \<open>
  Each loop of the source computes a familiar list function. The claims below are proved
  from these equations.
\<close>

lemma ctor_loop_eq:
  "ctor_loop mk i trackers = trackers @ map (\<lambda>j. mk (j * 500)) [i..4]"
proof (induction mk i trackers rule: ctor_loop.induct)
  case (1 mk i trackers)
  show ?case
  proof (cases "i \<le> 4")
    case True
    have "[i..4] = i # [i + 1..4]" using True by (simp add: upto_rec1)
    with 1 True show ?thesis by (simp add: ctor_loop.simps [of mk i])
  next
    case False
    then show ?thesis by (simp add: ctor_loop.simps [of mk i])
  qed
qed

lemma ladder: "map (\<lambda>j. j * 500) [- 4..4] = [- 2000, - 1500, - 1000, - 500, 0, 500, 1000, 1500, 2000 :: int]"
  by (simp add: upto_rec1)

lemma ctor_trackers:
  "m_signalTrackers (TrackingChannel_ctor ops fs sat sr) =
     map (new_SignalTracker ops fs sat sr) [- 2000, - 1500, - 1000, - 500, 0, 500, 1000, 1500, 2000]"
proof -
  have "map (\<lambda>j. new_SignalTracker ops fs sat sr (j * 500)) [- 4..4]
        = map (new_SignalTracker ops fs sat sr) (map (\<lambda>j. j * 500) [- 4..4])"
    by (simp only: map_map comp_def)
  then show ?thesis
    by (simp only: TrackingChannel_ctor_def ctor_loop_eq ladder TrackingChannel.simps append_Nil)
qed

lemma state_loop_eq: "state_loop st s xs = Max (insert s (st ` set xs))"
proof (induction xs arbitrary: s)
  case Nil
  show ?case by simp
next
  case (Cons x xs)
  have "Max (insert (max s (st x)) (st ` set xs)) = Max (insert s (insert (st x) (st ` set xs)))"
    by (cases "xs = []") (simp_all add: max.assoc)
  with Cons show ?case by simp
qed

lemma sync_loop_eq: "sync_loop sy xs = map sy xs"
  by (induction xs) simp_all

lemma dispatch_loop_eq: "dispatch_loop ps xs = map snd (filter fst (map ps xs))"
  by (induction xs) (simp_all split: prod.splits)

lemma erase_loop_eq: "erase_loop st full xs = filter (\<lambda>h. st h = full) xs"
  by (induction xs) simp_all

lemma pop_back_loop_eq: "pop_back_loop xs = take 1 xs"
proof (induction xs rule: pop_back_loop.induct)
  case (1 xs)
  show ?case
  proof (cases "1 < length xs")
    case True
    then have "take 1 (butlast xs) = take 1 xs"
      by (cases xs) (auto simp: take_butlast)
    with 1 True show ?thesis by (simp add: pop_back_loop.simps [of xs])
  next
    case False
    then have "pop_back_loop xs = xs" by (simp add: pop_back_loop.simps [of xs])
    moreover from False have "take 1 xs = xs" by (cases xs) simp_all
    ultimately show ?thesis by simp
  qed
qed

lemma dispatched_trackers:
  "m_signalTrackers (dispatched ops ch p) =
     map snd (filter fst (map (trk_processSamples ops p) (m_signalTrackers ch)))"
  by (simp add: dispatched_def dispatch_loop_eq)

lemma consensus_trackers:
  "m_signalTrackers (consensus ops ch) =
     take 1 (filter (\<lambda>h. trk_state ops h = fullTrack ops) (map (trk_sync ops) (m_signalTrackers ch)))"
  by (simp add: consensus_def sync_def sync_loop_eq erase_loop_eq pop_back_loop_eq Let_def)

lemma processSamples_trackers:
  "m_signalTrackers (snd (processSamples ops ch p)) =
     (if 1 < length (m_signalTrackers (dispatched ops ch p)) \<and> state ops (dispatched ops ch p) = fullTrack ops
      then take 1 (filter (\<lambda>h. trk_state ops h = fullTrack ops)
                     (map (trk_sync ops) (m_signalTrackers (dispatched ops ch p))))
      else m_signalTrackers (dispatched ops ch p))"
  by (simp add: processSamples_def Let_def consensus_trackers)

lemma length_dispatched: "length (m_signalTrackers (dispatched ops ch p)) \<le> length (m_signalTrackers ch)"
proof -
  have "length (filter fst (map (trk_processSamples ops p) (m_signalTrackers ch)))
        \<le> length (map (trk_processSamples ops p) (m_signalTrackers ch))"
    by (rule length_filter_le)
  then show ?thesis by (simp add: dispatched_trackers)
qed

text \<open>The scripted tracker's constructor, fields and the channel's state, ready to evaluate.\<close>

lemma scripted_ctor:
  "m_signalTrackers (TrackingChannel_ctor scripted_ops fs sat sr) =
     [Scripted (- 2000) 1 1, Scripted (- 1500) 1 1, Scripted (- 1000) 1 1, Scripted (- 500) 1 1,
      Scripted 0 1 1, Scripted 500 1 1, Scripted 1000 1 1, Scripted 1500 1 1, Scripted 2000 1 1]"
  by (simp add: ctor_trackers scripted_ops_def)

lemma scripted_fields:
  "trk_processSamples scripted_ops = scripted_processSamples"
  "trk_state scripted_ops = shown"
  "trk_sync scripted_ops = scripted_sync"
  "lossOfLock scripted_ops = 0"
  "fullTrack scripted_ops = 4"
  by (simp_all add: scripted_ops_def)

lemma state_eq: "state ops ch = state_loop (trk_state ops) (lossOfLock ops) (m_signalTrackers ch)"
  by (simp add: state_def)

lemma length_take1_filter:
  "length (take 1 (filter P xs)) = (if \<exists>x\<in>set xs. P x then 1 else 0)"
proof (cases "filter P xs")
  case Nil
  then have "\<not> (\<exists>x\<in>set xs. P x)" by (simp add: filter_empty_conv)
  with Nil show ?thesis by simp
next
  case (Cons y ys)
  then have "y \<in> set (filter P xs)" by simp
  then have "\<exists>x\<in>set xs. P x" by auto
  with Cons show ?thesis by simp
qed

text \<open>
  The order of the collection. \<open>f\<close> reads the frequency offset a tracker was constructed
  with; no call changes it. The offsets of the collection, front to back, ascend in
  every channel a caller can hold.
\<close>

lemma ascending_dispatched:
  assumes keep: "\<forall>p h. f (snd (trk_processSamples ops p h)) = f h"
    and asc: "sorted_wrt (<) (map f (m_signalTrackers ch))"
  shows "sorted_wrt (<) (map f (m_signalTrackers (dispatched ops ch p)))"
proof -
  let ?ps = "trk_processSamples ops p"
  have "map f (m_signalTrackers (dispatched ops ch p))
        = map f (filter (\<lambda>h. fst (?ps h)) (m_signalTrackers ch))"
    using keep by (simp add: dispatched_trackers filter_map comp_def)
  moreover have "sorted_wrt (\<lambda>x y. f x < f y) (filter (\<lambda>h. fst (?ps h)) (m_signalTrackers ch))"
    using asc by (simp add: sorted_wrt_map sorted_wrt_filter)
  ultimately show ?thesis by (simp add: sorted_wrt_map)
qed

lemma ascending_consensus:
  assumes keep: "\<forall>h. f (trk_sync ops h) = f h"
    and asc: "sorted_wrt (<) (map f xs)"
  shows "sorted_wrt (<) (map f (take 1 (filter P (map (trk_sync ops) xs))))"
proof -
  have "sorted_wrt (\<lambda>x y. f x < f y) (map (trk_sync ops) xs)"
    using keep asc by (simp add: sorted_wrt_map)
  then have "sorted_wrt (\<lambda>x y. f x < f y) (filter P (map (trk_sync ops) xs))"
    by (rule sorted_wrt_filter)
  then have "sorted_wrt (\<lambda>x y. f x < f y) (take 1 (filter P (map (trk_sync ops) xs)))"
    by (rule sorted_wrt_take)
  then show ?thesis by (simp add: sorted_wrt_map)
qed

lemma ascending_processSamples:
  assumes "\<forall>p h. f (snd (trk_processSamples ops p h)) = f h"
    and "\<forall>h. f (trk_sync ops h) = f h"
    and "sorted_wrt (<) (map f (m_signalTrackers ch))"
  shows "sorted_wrt (<) (map f (m_signalTrackers (snd (processSamples ops ch p))))"
proof -
  have d: "sorted_wrt (<) (map f (m_signalTrackers (dispatched ops ch p)))"
    using assms(1,3) by (rule ascending_dispatched)
  show ?thesis
  proof (cases "1 < length (m_signalTrackers (dispatched ops ch p))
                \<and> state ops (dispatched ops ch p) = fullTrack ops")
    case True
    then have "m_signalTrackers (snd (processSamples ops ch p)) =
        take 1 (filter (\<lambda>h. trk_state ops h = fullTrack ops)
                  (map (trk_sync ops) (m_signalTrackers (dispatched ops ch p))))"
      by (simp only: processSamples_trackers simp_thms if_True)
    then show ?thesis using ascending_consensus [OF assms(2) d] by simp
  next
    case False
    then have "m_signalTrackers (snd (processSamples ops ch p)) = m_signalTrackers (dispatched ops ch p)"
      by (simp only: processSamples_trackers if_False)
    then show ?thesis using d by simp
  qed
qed

lemma ascending_reachable:
  assumes made: "\<forall>b. f (new_SignalTracker ops fs sat sr b) = b"
    and ps: "\<forall>p h. f (snd (trk_processSamples ops p h)) = f h"
    and sy: "\<forall>h. f (trk_sync ops h) = f h"
    and r: "reachable ops fs sat sr ch"
  shows "sorted_wrt (<) (map f (m_signalTrackers ch))"
  using r
proof (induction rule: reachable.induct)
  case constructed
  show ?case using made by (simp add: ctor_trackers)
next
  case (after_processSamples ch p)
  with ps sy show ?case by (simp add: ascending_processSamples)
next
  case (after_sync ch)
  then show ?case using sy by (simp add: sync_def sync_loop_eq comp_def)
qed

lemma ascending_front_least:
  fixes f :: "'h \<Rightarrow> int"
  assumes "sorted_wrt (<) (map f xs)" and "xs \<noteq> []"
  shows "f (hd xs) = Min (f ` set xs)"
proof -
  from assms(2) obtain y ys where xs: "xs = y # ys" by (cases xs) auto
  with assms(1) have "\<forall>z\<in>set ys. f y < f z" by simp
  then have "Min (insert (f y) (f ` set ys)) = f y"
    by (intro Min_eqI) auto
  with xs show ?thesis by simp
qed

lemma scripted_keeps_offset:
  "\<forall>b. offset (new_SignalTracker scripted_ops fs sat sr b) = b"
  "\<forall>p h. offset (snd (trk_processSamples scripted_ops p h)) = offset h"
  "\<forall>h. offset (trk_sync scripted_ops h) = offset h"
  by (simp_all add: scripted_ops_def scripted_processSamples_def scripted_sync_def
      split: option.splits)

lemma scripted_transmitTime: "trk_transmitTime scripted_ops h = real_of_int (offset h)"
  by (simp add: scripted_ops_def)





section \<open>Claims\<close>

text \<open>
  Claim C1, as the code has it. The test of line 48 is made after the dispatch loop: if
  more than one hypothesis survives the loop and the aggregate state is then fullTrack,
  the call ends with at most one hypothesis, and with exactly one precisely when some
  survivor is still at fullTrack after its \<^verbatim>\<open>sync()\<close>.
\<close>

theorem consensus_converges:
  assumes "1 < length (m_signalTrackers (dispatched ops ch p))"
    and "state ops (dispatched ops ch p) = fullTrack ops"
  shows "length (m_signalTrackers (snd (processSamples ops ch p))) \<le> 1
    \<and> (length (m_signalTrackers (snd (processSamples ops ch p))) = 1
         \<longleftrightarrow> (\<exists>h\<in>set (m_signalTrackers (dispatched ops ch p)).
                trk_state ops (trk_sync ops h) = fullTrack ops))"
proof -
  let ?P = "\<lambda>h. trk_state ops h = fullTrack ops"
  let ?ys = "map (trk_sync ops) (m_signalTrackers (dispatched ops ch p))"
  from assms have eq: "m_signalTrackers (snd (processSamples ops ch p)) = take 1 (filter ?P ?ys)"
    by (simp only: processSamples_trackers simp_thms if_True)
  have "(\<exists>y\<in>set ?ys. ?P y)
        \<longleftrightarrow> (\<exists>h\<in>set (m_signalTrackers (dispatched ops ch p)).
               trk_state ops (trk_sync ops h) = fullTrack ops)"
    by simp
  then show ?thesis
    unfolding eq length_take1_filter by simp
qed

text \<open>
  The theorem on a channel of three: one hypothesis fails, one reaches fullTrack, one
  stays behind; the call ends with one hypothesis.
\<close>

theorem consensus_converges_witness:
  "length (m_signalTrackers (snd (processSamples scripted_ops
      \<lparr>m_signalTrackers = [Scripted (- 500) 2 2, Scripted 0 3 3, Scripted 500 3 3],
       m_inputPackets = 40, m_prn = 9\<rparr>
      [(- 500, False, 0, 0), (0, True, 4, 4), (500, True, 3, 3)]))) = 1"
proof -
  let ?ch = "\<lparr>m_signalTrackers = [Scripted (- 500) 2 2, Scripted 0 3 3, Scripted 500 3 3],
       m_inputPackets = 40, m_prn = 9 :: 32 word\<rparr>"
  let ?p = "[(- 500, False, 0, 0), (0, True, 4, 4), (500, True, 3, 3)] :: script"
  have d: "m_signalTrackers (dispatched scripted_ops ?ch ?p) = [Scripted 0 4 4, Scripted 500 3 3]"
    by (simp add: dispatched_trackers scripted_fields scripted_processSamples_def)
  have many: "1 < length (m_signalTrackers (dispatched scripted_ops ?ch ?p))"
    by (simp add: d)
  have full: "state scripted_ops (dispatched scripted_ops ?ch ?p) = fullTrack scripted_ops"
    by (simp add: state_eq d scripted_fields)
  have still: "\<exists>h\<in>set (m_signalTrackers (dispatched scripted_ops ?ch ?p)).
      trk_state scripted_ops (trk_sync scripted_ops h) = fullTrack scripted_ops"
    by (simp add: d scripted_fields scripted_sync_def)
  from consensus_converges [OF many full] still show ?thesis by (simp only: simp_thms)
qed

text \<open>
  Claim C1 as stated fails. A channel holds two hypotheses, both at fullTrack. If the
  next packet makes both report failure, the call leaves no hypothesis; if it makes both
  fall back to lower states without failing, the call leaves both.
\<close>

theorem full_lock_then_next_call_counterexample:
  "state scripted_ops \<lparr>m_signalTrackers = [Scripted 0 4 4, Scripted 500 4 4],
       m_inputPackets = 40, m_prn = 9\<rparr> = fullTrack scripted_ops
   \<and> m_signalTrackers (snd (processSamples scripted_ops
        \<lparr>m_signalTrackers = [Scripted 0 4 4, Scripted 500 4 4], m_inputPackets = 40, m_prn = 9\<rparr>
        [(0, False, 0, 0), (500, False, 0, 0)])) = []
   \<and> m_signalTrackers (snd (processSamples scripted_ops
        \<lparr>m_signalTrackers = [Scripted 0 4 4, Scripted 500 4 4], m_inputPackets = 40, m_prn = 9\<rparr>
        [(0, True, 2, 2), (500, True, 3, 3)])) = [Scripted 0 2 2, Scripted 500 3 3]"
proof -
  let ?ch = "\<lparr>m_signalTrackers = [Scripted 0 4 4, Scripted 500 4 4],
       m_inputPackets = 40, m_prn = 9 :: 32 word\<rparr>"
  let ?p = "[(0, False, 0, 0), (500, False, 0, 0)] :: script"
  let ?q = "[(0, True, 2, 2), (500, True, 3, 3)] :: script"
  have "state scripted_ops ?ch = fullTrack scripted_ops"
    by (simp add: state_eq scripted_fields)
  moreover have "m_signalTrackers (snd (processSamples scripted_ops ?ch ?p)) = []"
    by (simp add: processSamples_trackers dispatched_trackers scripted_fields
        scripted_processSamples_def)
  moreover have "m_signalTrackers (snd (processSamples scripted_ops ?ch ?q))
      = [Scripted 0 2 2, Scripted 500 3 3]"
    by (simp add: processSamples_trackers dispatched_trackers scripted_fields
        scripted_processSamples_def state_eq)
  ultimately show ?thesis by (simp only: simp_thms)
qed

text \<open>
  Why the theorem asks for a survivor at fullTrack after \<^verbatim>\<open>sync()\<close>: the erase loop
  of lines 50-55 reads the states after \<^verbatim>\<open>sync()\<close>, and a tracker whose state
  changes there can leave the collection empty.
\<close>

lemma sync_may_drop_full_lock:
  "m_signalTrackers (snd (processSamples scripted_ops
        \<lparr>m_signalTrackers = [Scripted 0 3 3, Scripted 500 3 3], m_inputPackets = 40, m_prn = 9\<rparr>
        [(0, True, 4, 3), (500, True, 3, 3)])) = []"
  by (simp add: processSamples_trackers dispatched_trackers scripted_fields
        scripted_processSamples_def state_eq scripted_sync_def)

text \<open>
  Claim C2, as the code has it. The dispatch loop hands the packet to every hypothesis
  once: what is left is, in order, the new state of each hypothesis whose own
  \<^verbatim>\<open>processSamples\<close> answered true. When consensus resolution does not run (at
  most one survivor, or an aggregate state other than fullTrack) these survivors are the
  collection after the call. When it runs, the collection after the call is the first
  survivor that is at fullTrack after its \<^verbatim>\<open>sync()\<close>, or nothing if there is none,
  so strictly fewer hypotheses than survived the dispatch. The call returns true exactly
  when the collection is not empty afterwards.
\<close>

theorem processSamples_dispatch:
  "m_signalTrackers (dispatched ops ch p) =
     map snd (filter fst (map (trk_processSamples ops p) (m_signalTrackers ch)))
   \<and> (\<not> (1 < length (m_signalTrackers (dispatched ops ch p))
          \<and> state ops (dispatched ops ch p) = fullTrack ops)
        \<longrightarrow> m_signalTrackers (snd (processSamples ops ch p)) = m_signalTrackers (dispatched ops ch p))
   \<and> (1 < length (m_signalTrackers (dispatched ops ch p))
          \<and> state ops (dispatched ops ch p) = fullTrack ops
        \<longrightarrow> m_signalTrackers (snd (processSamples ops ch p)) =
              take 1 (filter (\<lambda>h. trk_state ops h = fullTrack ops)
                        (map (trk_sync ops) (m_signalTrackers (dispatched ops ch p))))
            \<and> length (m_signalTrackers (snd (processSamples ops ch p)))
                < length (m_signalTrackers (dispatched ops ch p)))
   \<and> (fst (processSamples ops ch p) \<longleftrightarrow> m_signalTrackers (snd (processSamples ops ch p)) \<noteq> [])"
proof (intro conjI impI)
  show "m_signalTrackers (dispatched ops ch p) =
     map snd (filter fst (map (trk_processSamples ops p) (m_signalTrackers ch)))"
    by (rule dispatched_trackers)
next
  assume "\<not> (1 < length (m_signalTrackers (dispatched ops ch p))
          \<and> state ops (dispatched ops ch p) = fullTrack ops)"
  then show "m_signalTrackers (snd (processSamples ops ch p)) = m_signalTrackers (dispatched ops ch p)"
    by (simp only: processSamples_trackers if_False)
next
  assume run: "1 < length (m_signalTrackers (dispatched ops ch p))
          \<and> state ops (dispatched ops ch p) = fullTrack ops"
  then show "m_signalTrackers (snd (processSamples ops ch p)) =
      take 1 (filter (\<lambda>h. trk_state ops h = fullTrack ops)
                (map (trk_sync ops) (m_signalTrackers (dispatched ops ch p))))"
    by (simp only: processSamples_trackers simp_thms if_True)
next
  assume run: "1 < length (m_signalTrackers (dispatched ops ch p))
          \<and> state ops (dispatched ops ch p) = fullTrack ops"
  then have "m_signalTrackers (snd (processSamples ops ch p)) =
      take 1 (filter (\<lambda>h. trk_state ops h = fullTrack ops)
                (map (trk_sync ops) (m_signalTrackers (dispatched ops ch p))))"
    by (simp only: processSamples_trackers simp_thms if_True)
  then have "length (m_signalTrackers (snd (processSamples ops ch p))) \<le> 1"
    by simp
  also from run have "1 < length (m_signalTrackers (dispatched ops ch p))"
    by (rule conjunct1)
  finally show "length (m_signalTrackers (snd (processSamples ops ch p)))
      < length (m_signalTrackers (dispatched ops ch p))" .
next
  show "fst (processSamples ops ch p) \<longleftrightarrow> m_signalTrackers (snd (processSamples ops ch p)) \<noteq> []"
    by (simp add: processSamples_def Let_def)
qed

text \<open>
  The theorem on a fresh channel, twice. The first packet makes the hypothesis at
  -2000 Hz fail and moves the one at 0 Hz to state 3: consensus does not run, eight
  hypotheses are left and the call returns true. The second packet makes the hypothesis
  at -2000 Hz fail and moves those at 0 Hz and 500 Hz to fullTrack: consensus runs over
  the eight survivors, the one at 0 Hz is left and the call returns true.
\<close>

theorem processSamples_dispatch_witness:
  "m_signalTrackers (dispatched scripted_ops (TrackingChannel_ctor scripted_ops 2048000 7 ())
       [(- 2000, False, 0, 0), (0, True, 3, 3)]) =
     [Scripted (- 1500) 1 1, Scripted (- 1000) 1 1, Scripted (- 500) 1 1,
      Scripted 0 3 3, Scripted 500 1 1, Scripted 1000 1 1, Scripted 1500 1 1, Scripted 2000 1 1]
   \<and> processSamples scripted_ops (TrackingChannel_ctor scripted_ops 2048000 7 ())
       [(- 2000, False, 0, 0), (0, True, 3, 3)] =
     (True, \<lparr>m_signalTrackers =
        [Scripted (- 1500) 1 1, Scripted (- 1000) 1 1, Scripted (- 500) 1 1,
         Scripted 0 3 3, Scripted 500 1 1, Scripted 1000 1 1, Scripted 1500 1 1, Scripted 2000 1 1],
        m_inputPackets = 1, m_prn = 7\<rparr>)
   \<and> m_signalTrackers (dispatched scripted_ops (TrackingChannel_ctor scripted_ops 2048000 7 ())
       [(- 2000, False, 0, 0), (0, True, 4, 4), (500, True, 4, 4)]) =
     [Scripted (- 1500) 1 1, Scripted (- 1000) 1 1, Scripted (- 500) 1 1,
      Scripted 0 4 4, Scripted 500 4 4, Scripted 1000 1 1, Scripted 1500 1 1, Scripted 2000 1 1]
   \<and> processSamples scripted_ops (TrackingChannel_ctor scripted_ops 2048000 7 ())
       [(- 2000, False, 0, 0), (0, True, 4, 4), (500, True, 4, 4)] =
     (True, \<lparr>m_signalTrackers = [Scripted 0 4 4], m_inputPackets = 1, m_prn = 7\<rparr>)"
proof -
  let ?ch = "TrackingChannel_ctor scripted_ops 2048000 7 ()"
  let ?p = "[(- 2000, False, 0, 0), (0, True, 3, 3)] :: script"
  let ?q = "[(- 2000, False, 0, 0), (0, True, 4, 4), (500, True, 4, 4)] :: script"
  let ?xs = "[Scripted (- 1500) 1 1, Scripted (- 1000) 1 1, Scripted (- 500) 1 1,
      Scripted 0 3 3, Scripted 500 1 1, Scripted 1000 1 1, Scripted 1500 1 1, Scripted 2000 1 1]"
  let ?ys = "[Scripted (- 1500) 1 1, Scripted (- 1000) 1 1, Scripted (- 500) 1 1,
      Scripted 0 4 4, Scripted 500 4 4, Scripted 1000 1 1, Scripted 1500 1 1, Scripted 2000 1 1]"
  have fields: "m_inputPackets (snd (processSamples scripted_ops ?ch r)) = 1"
    "m_prn (snd (processSamples scripted_ops ?ch r)) = 7" for r
    by (simp_all add: processSamples_def Let_def consensus_def sync_def dispatched_def
        TrackingChannel_ctor_def)
  note inst = processSamples_dispatch [of scripted_ops ?ch ?p]
  from inst have d: "m_signalTrackers (dispatched scripted_ops ?ch ?p) = ?xs"
    by (simp add: scripted_ctor scripted_fields scripted_processSamples_def)
  have st: "state scripted_ops (dispatched scripted_ops ?ch ?p) = 3"
    by (simp add: state_eq d scripted_fields)
  have quiet: "\<not> (1 < length (m_signalTrackers (dispatched scripted_ops ?ch ?p))
          \<and> state scripted_ops (dispatched scripted_ops ?ch ?p) = fullTrack scripted_ops)"
    by (simp add: st scripted_fields)
  from inst have "\<not> (1 < length (m_signalTrackers (dispatched scripted_ops ?ch ?p))
          \<and> state scripted_ops (dispatched scripted_ops ?ch ?p) = fullTrack scripted_ops)
     \<longrightarrow> m_signalTrackers (snd (processSamples scripted_ops ?ch ?p))
         = m_signalTrackers (dispatched scripted_ops ?ch ?p)"
    by (rule conjunct1 [OF conjunct2])
  with quiet have t: "m_signalTrackers (snd (processSamples scripted_ops ?ch ?p)) = ?xs"
    by (simp only: d simp_thms)
  from inst have "fst (processSamples scripted_ops ?ch ?p)
     \<longleftrightarrow> m_signalTrackers (snd (processSamples scripted_ops ?ch ?p)) \<noteq> []"
    by (rule conjunct2 [OF conjunct2 [OF conjunct2]])
  then have f: "fst (processSamples scripted_ops ?ch ?p)"
    by (simp add: t)
  from t f fields [of ?p] have first: "processSamples scripted_ops ?ch ?p =
     (True, \<lparr>m_signalTrackers = ?xs, m_inputPackets = 1, m_prn = 7\<rparr>)"
    by (cases "processSamples scripted_ops ?ch ?p") simp
  note inst' = processSamples_dispatch [of scripted_ops ?ch ?q]
  from inst' have d': "m_signalTrackers (dispatched scripted_ops ?ch ?q) = ?ys"
    by (simp add: scripted_ctor scripted_fields scripted_processSamples_def)
  have st': "state scripted_ops (dispatched scripted_ops ?ch ?q) = 4"
    by (simp add: state_eq d' scripted_fields)
  have run: "1 < length (m_signalTrackers (dispatched scripted_ops ?ch ?q))
          \<and> state scripted_ops (dispatched scripted_ops ?ch ?q) = fullTrack scripted_ops"
    by (simp add: d' st' scripted_fields)
  from inst' have "1 < length (m_signalTrackers (dispatched scripted_ops ?ch ?q))
          \<and> state scripted_ops (dispatched scripted_ops ?ch ?q) = fullTrack scripted_ops
     \<longrightarrow> m_signalTrackers (snd (processSamples scripted_ops ?ch ?q)) =
              take 1 (filter (\<lambda>h. trk_state scripted_ops h = fullTrack scripted_ops)
                        (map (trk_sync scripted_ops) (m_signalTrackers (dispatched scripted_ops ?ch ?q))))
            \<and> length (m_signalTrackers (snd (processSamples scripted_ops ?ch ?q)))
                < length (m_signalTrackers (dispatched scripted_ops ?ch ?q))"
    by (rule conjunct1 [OF conjunct2 [OF conjunct2]])
  with run have "m_signalTrackers (snd (processSamples scripted_ops ?ch ?q)) =
              take 1 (filter (\<lambda>h. trk_state scripted_ops h = fullTrack scripted_ops)
                        (map (trk_sync scripted_ops) (m_signalTrackers (dispatched scripted_ops ?ch ?q))))"
    by blast
  then have t': "m_signalTrackers (snd (processSamples scripted_ops ?ch ?q)) = [Scripted 0 4 4]"
    by (simp add: d' scripted_fields scripted_sync_def)
  from inst' have "fst (processSamples scripted_ops ?ch ?q)
     \<longleftrightarrow> m_signalTrackers (snd (processSamples scripted_ops ?ch ?q)) \<noteq> []"
    by (rule conjunct2 [OF conjunct2 [OF conjunct2]])
  then have f': "fst (processSamples scripted_ops ?ch ?q)"
    by (simp add: t')
  from t' f' fields [of ?q] have second: "processSamples scripted_ops ?ch ?q =
     (True, \<lparr>m_signalTrackers = [Scripted 0 4 4], m_inputPackets = 1, m_prn = 7\<rparr>)"
    by (cases "processSamples scripted_ops ?ch ?q") simp
  from d first d' second show ?thesis by (simp only: simp_thms)
qed

text \<open>
  Claim C2 as stated fails: here all nine hypotheses answer true, two of them reach
  fullTrack, and the call removes eight hypotheses none of which reported failure.
\<close>

theorem processSamples_removes_more_counterexample:
  "map (\<lambda>h. fst (trk_processSamples scripted_ops [(0, True, 4, 4), (500, True, 4, 4)] h))
       (m_signalTrackers (TrackingChannel_ctor scripted_ops 2048000 7 ()))
     = [True, True, True, True, True, True, True, True, True]
   \<and> m_signalTrackers (snd (processSamples scripted_ops
          (TrackingChannel_ctor scripted_ops 2048000 7 ()) [(0, True, 4, 4), (500, True, 4, 4)]))
     = [Scripted 0 4 4]"
proof -
  let ?ch = "TrackingChannel_ctor scripted_ops 2048000 7 ()"
  let ?p = "[(0, True, 4, 4), (500, True, 4, 4)] :: script"
  have d: "m_signalTrackers (dispatched scripted_ops ?ch ?p) =
     [Scripted (- 2000) 1 1, Scripted (- 1500) 1 1, Scripted (- 1000) 1 1, Scripted (- 500) 1 1,
      Scripted 0 4 4, Scripted 500 4 4, Scripted 1000 1 1, Scripted 1500 1 1, Scripted 2000 1 1]"
    by (simp add: dispatched_trackers scripted_ctor scripted_fields scripted_processSamples_def)
  have st: "state scripted_ops (dispatched scripted_ops ?ch ?p) = 4"
    by (simp add: state_eq d scripted_fields)
  have "m_signalTrackers (snd (processSamples scripted_ops ?ch ?p)) = [Scripted 0 4 4]"
    by (simp add: processSamples_trackers d st scripted_fields scripted_sync_def)
  moreover have "map (\<lambda>h. fst (trk_processSamples scripted_ops ?p h)) (m_signalTrackers ?ch)
     = [True, True, True, True, True, True, True, True, True]"
    by (simp add: scripted_ctor scripted_fields scripted_processSamples_def)
  ultimately show ?thesis by (simp only: simp_thms)
qed

text \<open>
  Claim C3. \<^verbatim>\<open>state()\<close> is the maximum of the states of the live hypotheses, and
  lossOfLock when there is none. The enumeration is declared outside the two source
  files; the theorem takes lossOfLock to lie below the state of every live hypothesis,
  as the first enumerator of \<^verbatim>\<open>{lossOfLock, ..., fullTrack}\<close> does.
\<close>

theorem state_is_max:
  assumes "\<forall>h\<in>set (m_signalTrackers ch). lossOfLock ops \<le> trk_state ops h"
  shows "state ops ch =
           (if m_signalTrackers ch = [] then lossOfLock ops
            else Max (trk_state ops ` set (m_signalTrackers ch)))"
proof (cases "m_signalTrackers ch = []")
  case True
  then show ?thesis by (simp add: state_def)
next
  case False
  define S where "S = trk_state ops ` set (m_signalTrackers ch)"
  have fin: "finite S" by (simp add: S_def)
  have ne: "S \<noteq> {}" using False by (simp add: S_def)
  have low: "lossOfLock ops \<le> s" if "s \<in> S" for s
    using assms that by (auto simp: S_def)
  from ne obtain s where s: "s \<in> S" by blast
  have "lossOfLock ops \<le> s" using s by (rule low)
  also have "s \<le> Max S" using fin s by (rule Max_ge)
  finally have "max (lossOfLock ops) (Max S) = Max S" by (rule max_absorb2)
  moreover have "Max (insert (lossOfLock ops) S) = max (lossOfLock ops) (Max S)"
    using fin ne by (rule Max_insert)
  moreover have "state ops ch = Max (insert (lossOfLock ops) S)"
    unfolding state_def S_def by (rule state_loop_eq)
  ultimately have "state ops ch = Max S" by (simp only:)
  with False show ?thesis by (simp only: S_def if_False)
qed

text \<open>The theorem at a channel of three hypotheses and at an empty channel.\<close>

theorem state_is_max_witness:
  "state scripted_ops \<lparr>m_signalTrackers = [Scripted (- 500) 1 1, Scripted 0 3 3, Scripted 500 2 2],
       m_inputPackets = 7, m_prn = 5\<rparr> = 3
   \<and> state scripted_ops \<lparr>m_signalTrackers = [], m_inputPackets = 7, m_prn = 5\<rparr> = 0"
proof -
  let ?ch = "\<lparr>m_signalTrackers = [Scripted (- 500) 1 1, Scripted 0 3 3, Scripted 500 2 2],
       m_inputPackets = 7, m_prn = 5 :: 32 word\<rparr>"
  let ?e = "\<lparr>m_signalTrackers = [] :: scripted list, m_inputPackets = 7, m_prn = 5 :: 32 word\<rparr>"
  have h1: "\<forall>h\<in>set (m_signalTrackers ?ch). lossOfLock scripted_ops \<le> trk_state scripted_ops h"
    by (simp add: scripted_ops_def)
  have h2: "\<forall>h\<in>set (m_signalTrackers ?e). lossOfLock scripted_ops \<le> trk_state scripted_ops h"
    by simp
  have "state scripted_ops ?ch = Max (shown ` {Scripted (- 500) 1 1, Scripted 0 3 3, Scripted 500 2 2})"
    using state_is_max [OF h1] by (simp add: scripted_ops_def)
  moreover have "state scripted_ops ?e = 0"
    using state_is_max [OF h2] by (simp add: scripted_ops_def)
  ultimately show ?thesis by simp
qed

text \<open>
  Claim C4. A call of \<^verbatim>\<open>processSamples\<close> never leaves more hypotheses in the
  collection than it found there.
\<close>

theorem processSamples_never_grows:
  "length (m_signalTrackers (snd (processSamples ops ch p))) \<le> length (m_signalTrackers ch)"
proof (cases "1 < length (m_signalTrackers (dispatched ops ch p)) \<and> state ops (dispatched ops ch p) = fullTrack ops")
  case True
  then have "length (m_signalTrackers (snd (processSamples ops ch p))) \<le> 1"
    by (simp add: processSamples_trackers)
  also have "\<dots> \<le> length (m_signalTrackers (dispatched ops ch p))" using True by simp
  also have "\<dots> \<le> length (m_signalTrackers ch)" by (rule length_dispatched)
  finally show ?thesis .
next
  case False
  then have "m_signalTrackers (snd (processSamples ops ch p)) = m_signalTrackers (dispatched ops ch p)"
    by (simp only: processSamples_trackers if_False)
  then show ?thesis by (simp add: length_dispatched)
qed

text \<open>
  Claim C5. The constructor makes exactly 9 hypotheses, all from the same sample rate,
  PRN and search result, with the frequency offsets -2000, -1500, ..., 2000 Hz in this
  order.
\<close>

theorem TrackingChannel_ctor_ladder:
  "m_signalTrackers (TrackingChannel_ctor ops fs sat sr) =
     map (new_SignalTracker ops fs sat sr) [- 2000, - 1500, - 1000, - 500, 0, 500, 1000, 1500, 2000]
   \<and> length (m_signalTrackers (TrackingChannel_ctor ops fs sat sr)) = 9"
  by (simp add: ctor_trackers)

text \<open>
  Claim C6. When consensus resolution runs and more than one hypothesis is at fullTrack
  after the erase loop, the call ends with exactly the first of them, alone.
\<close>

theorem consensus_keeps_first:
  assumes "1 < length (m_signalTrackers (dispatched ops ch p))"
    and "state ops (dispatched ops ch p) = fullTrack ops"
    and "1 < length (filter (\<lambda>h. trk_state ops h = fullTrack ops)
                 (map (trk_sync ops) (m_signalTrackers (dispatched ops ch p))))"
  shows "m_signalTrackers (snd (processSamples ops ch p)) =
           [hd (filter (\<lambda>h. trk_state ops h = fullTrack ops)
                  (map (trk_sync ops) (m_signalTrackers (dispatched ops ch p))))]"
proof -
  let ?zs = "filter (\<lambda>h. trk_state ops h = fullTrack ops)
                  (map (trk_sync ops) (m_signalTrackers (dispatched ops ch p)))"
  from assms(1,2) have "m_signalTrackers (snd (processSamples ops ch p)) = take 1 ?zs"
    by (simp only: processSamples_trackers simp_thms if_True)
  moreover from assms(3) have "take 1 ?zs = [hd ?zs]"
    by (cases ?zs) simp_all
  ultimately show ?thesis by simp
qed

text \<open>
  The theorem on a channel of four: after \<^verbatim>\<open>sync()\<close> three hypotheses are at
  fullTrack, and the one at 0 Hz, the first of them, is kept.
\<close>

theorem consensus_keeps_first_witness:
  "m_signalTrackers (snd (processSamples scripted_ops
      \<lparr>m_signalTrackers = [Scripted (- 500) 3 3, Scripted 0 3 3, Scripted 500 3 3, Scripted 1000 3 3],
       m_inputPackets = 40, m_prn = 9\<rparr>
      [(0, True, 4, 4), (500, True, 4, 4), (1000, True, 3, 4)]))
   = [Scripted 0 4 4]"
proof -
  let ?ch = "\<lparr>m_signalTrackers = [Scripted (- 500) 3 3, Scripted 0 3 3, Scripted 500 3 3, Scripted 1000 3 3],
       m_inputPackets = 40, m_prn = 9 :: 32 word\<rparr>"
  let ?p = "[(0, True, 4, 4), (500, True, 4, 4), (1000, True, 3, 4)] :: script"
  have d: "m_signalTrackers (dispatched scripted_ops ?ch ?p)
      = [Scripted (- 500) 3 3, Scripted 0 4 4, Scripted 500 4 4, Scripted 1000 3 4]"
    by (simp add: dispatched_trackers scripted_fields scripted_processSamples_def)
  have many: "1 < length (m_signalTrackers (dispatched scripted_ops ?ch ?p))"
    by (simp add: d)
  have full: "state scripted_ops (dispatched scripted_ops ?ch ?p) = fullTrack scripted_ops"
    by (simp add: state_eq d scripted_fields)
  have z: "filter (\<lambda>h. trk_state scripted_ops h = fullTrack scripted_ops)
      (map (trk_sync scripted_ops) (m_signalTrackers (dispatched scripted_ops ?ch ?p)))
      = [Scripted 0 4 4, Scripted 500 4 4, Scripted 1000 4 4]"
    by (simp add: d scripted_fields scripted_sync_def)
  have tie: "1 < length (filter (\<lambda>h. trk_state scripted_ops h = fullTrack scripted_ops)
      (map (trk_sync scripted_ops) (m_signalTrackers (dispatched scripted_ops ?ch ?p))))"
    by (simp add: z)
  from consensus_keeps_first [OF many full tie] show ?thesis by (simp add: z)
qed

text \<open>
  Claim C7, as the code has it. \<^verbatim>\<open>transmitTime()\<close> returns the transmit time of the
  first hypothesis when there is one. On a channel with no hypothesis it calls
  \<^verbatim>\<open>front()\<close> on an empty list: undefined behaviour, with no fallback value.
\<close>

theorem transmitTime_needs_a_hypothesis:
  "transmitTime ops ch =
     (if m_signalTrackers ch = [] then Inl FrontOfEmptyList
      else Inr (trk_transmitTime ops (hd (m_signalTrackers ch))))
   \<and> (isl (transmitTime ops ch) \<longleftrightarrow> m_signalTrackers ch = [])"
  by (cases "m_signalTrackers ch") (simp_all add: transmitTime_def)

text \<open>
  Claim C7 as stated fails: a packet on which all nine hypotheses report failure leaves
  a fresh channel empty, and \<^verbatim>\<open>transmitTime()\<close> on it is the undefined call.
\<close>

theorem transmitTime_empty_counterexample:
  "m_signalTrackers (snd (processSamples scripted_ops
       (TrackingChannel_ctor scripted_ops 2048000 7 ())
       [(- 2000, False, 0, 0), (- 1500, False, 0, 0), (- 1000, False, 0, 0), (- 500, False, 0, 0),
        (0, False, 0, 0), (500, False, 0, 0), (1000, False, 0, 0), (1500, False, 0, 0),
        (2000, False, 0, 0)])) = []
   \<and> transmitTime scripted_ops (snd (processSamples scripted_ops
       (TrackingChannel_ctor scripted_ops 2048000 7 ())
       [(- 2000, False, 0, 0), (- 1500, False, 0, 0), (- 1000, False, 0, 0), (- 500, False, 0, 0),
        (0, False, 0, 0), (500, False, 0, 0), (1000, False, 0, 0), (1500, False, 0, 0),
        (2000, False, 0, 0)])) = Inl FrontOfEmptyList"
proof -
  let ?ch = "TrackingChannel_ctor scripted_ops 2048000 7 ()"
  let ?p = "[(- 2000, False, 0, 0), (- 1500, False, 0, 0), (- 1000, False, 0, 0), (- 500, False, 0, 0),
        (0, False, 0, 0), (500, False, 0, 0), (1000, False, 0, 0), (1500, False, 0, 0),
        (2000, False, 0, 0)] :: script"
  have d: "m_signalTrackers (dispatched scripted_ops ?ch ?p) = []"
    by (simp add: dispatched_trackers scripted_ctor scripted_fields scripted_processSamples_def)
  have e: "m_signalTrackers (snd (processSamples scripted_ops ?ch ?p)) = []"
    by (simp add: processSamples_trackers d)
  then have "transmitTime scripted_ops (snd (processSamples scripted_ops ?ch ?p)) = Inl FrontOfEmptyList"
    by (simp add: transmitTime_def)
  with e show ?thesis by (simp only: simp_thms)
qed



text \<open>
  Claim C9. \<^verbatim>\<open>sync()\<close> changes the channel in one way only: every hypothesis, at its
  place, has had its own \<^verbatim>\<open>sync()\<close> called. The collection keeps its size and
  order, and no other member changes.
\<close>

theorem sync_frame:
  "sync ops ch = ch\<lparr>m_signalTrackers := map (trk_sync ops) (m_signalTrackers ch)\<rparr>
   \<and> length (m_signalTrackers (sync ops ch)) = length (m_signalTrackers ch)
   \<and> m_inputPackets (sync ops ch) = m_inputPackets ch
   \<and> m_prn (sync ops ch) = m_prn ch"
  by (simp add: sync_def sync_loop_eq)

text \<open>
  Claim C10. Let \<open>freqOffset\<close> read the frequency offset a tracker was constructed with
  (the tracker's \<^verbatim>\<open>processSamples\<close> and \<^verbatim>\<open>sync\<close> do not change which tracker it
  is). In every reachable channel the offsets of the live hypotheses ascend from front
  to back, so whenever a hypothesis is left, \<^verbatim>\<open>transmitTime()\<close>,
  \<^verbatim>\<open>satellitePosition()\<close> and \<^verbatim>\<open>latLong()\<close> answer from the one with the least
  offset.
\<close>

theorem front_has_lowest_offset:
  fixes freqOffset :: "'h \<Rightarrow> int"
  assumes "\<forall>b. freqOffset (new_SignalTracker ops fs sat sr b) = b"
    and "\<forall>p h. freqOffset (snd (trk_processSamples ops p h)) = freqOffset h"
    and "\<forall>h. freqOffset (trk_sync ops h) = freqOffset h"
    and "reachable ops fs sat sr ch"
  shows "sorted_wrt (<) (map freqOffset (m_signalTrackers ch))
    \<and> (m_signalTrackers ch \<noteq> [] \<longrightarrow>
         freqOffset (hd (m_signalTrackers ch)) = Min (freqOffset ` set (m_signalTrackers ch))
       \<and> transmitTime ops ch = Inr (trk_transmitTime ops (hd (m_signalTrackers ch)))
       \<and> satellitePosition ops ch t = Inr (trk_satellitePosition ops (hd (m_signalTrackers ch)) t)
       \<and> latLong ops ch t = Inr (trk_latLong ops (hd (m_signalTrackers ch)) t))"
proof -
  have asc: "sorted_wrt (<) (map freqOffset (m_signalTrackers ch))"
    using assms by (rule ascending_reachable)
  have "freqOffset (hd (m_signalTrackers ch)) = Min (freqOffset ` set (m_signalTrackers ch))"
    if "m_signalTrackers ch \<noteq> []"
    using asc that by (rule ascending_front_least)
  moreover have "transmitTime ops ch = Inr (trk_transmitTime ops (hd (m_signalTrackers ch)))
       \<and> satellitePosition ops ch t = Inr (trk_satellitePosition ops (hd (m_signalTrackers ch)) t)
       \<and> latLong ops ch t = Inr (trk_latLong ops (hd (m_signalTrackers ch)) t)"
    if "m_signalTrackers ch \<noteq> []"
    using that by (cases "m_signalTrackers ch")
      (simp_all add: transmitTime_def satellitePosition_def latLong_def)
  ultimately show ?thesis using asc by blast
qed

text \<open>
  The theorem on a fresh channel after a packet on which the hypotheses at -2000, -1500
  and 500 Hz fail: the front is the hypothesis at -1000 Hz.
\<close>

theorem front_has_lowest_offset_witness:
  "sorted_wrt (<) (map offset (m_signalTrackers (snd (processSamples scripted_ops
       (TrackingChannel_ctor scripted_ops 2048000 7 ())
       [(- 2000, False, 0, 0), (- 1500, False, 0, 0), (500, False, 0, 0)]))))
   \<and> Min (offset ` set (m_signalTrackers (snd (processSamples scripted_ops
       (TrackingChannel_ctor scripted_ops 2048000 7 ())
       [(- 2000, False, 0, 0), (- 1500, False, 0, 0), (500, False, 0, 0)])))) = - 1000
   \<and> transmitTime scripted_ops (snd (processSamples scripted_ops
       (TrackingChannel_ctor scripted_ops 2048000 7 ())
       [(- 2000, False, 0, 0), (- 1500, False, 0, 0), (500, False, 0, 0)])) = Inr (- 1000)"
proof -
  let ?fresh = "TrackingChannel_ctor scripted_ops 2048000 7 ()"
  let ?p = "[(- 2000, False, 0, 0), (- 1500, False, 0, 0), (500, False, 0, 0)] :: script"
  let ?ch = "snd (processSamples scripted_ops ?fresh ?p)"
  have r: "reachable scripted_ops 2048000 7 () ?ch"
    by (rule reachable.after_processSamples) (rule reachable.constructed)
  have d: "m_signalTrackers (dispatched scripted_ops ?fresh ?p) =
     [Scripted (- 1000) 1 1, Scripted (- 500) 1 1, Scripted 0 1 1, Scripted 1000 1 1,
      Scripted 1500 1 1, Scripted 2000 1 1]"
    by (simp add: dispatched_trackers scripted_ctor scripted_fields scripted_processSamples_def)
  have st: "state scripted_ops (dispatched scripted_ops ?fresh ?p) = 1"
    by (simp add: state_eq d scripted_fields)
  have t: "m_signalTrackers ?ch =
     [Scripted (- 1000) 1 1, Scripted (- 500) 1 1, Scripted 0 1 1, Scripted 1000 1 1,
      Scripted 1500 1 1, Scripted 2000 1 1]"
    by (simp add: processSamples_trackers d st scripted_fields)
  note inst = front_has_lowest_offset [of offset scripted_ops 2048000 7 "()" ?ch 0,
      OF scripted_keeps_offset r]
  from inst have "sorted_wrt (<) (map offset (m_signalTrackers ?ch))"
    by (rule conjunct1)
  moreover have "Min (offset ` set (m_signalTrackers ?ch)) = - 1000"
    and "transmitTime scripted_ops ?ch = Inr (- 1000)"
  proof -
    have ne: "m_signalTrackers ?ch \<noteq> []" by (simp add: t)
    have front: "hd (m_signalTrackers ?ch) = Scripted (- 1000) 1 1" by (simp add: t)
    from inst ne
    have a: "offset (hd (m_signalTrackers ?ch)) = Min (offset ` set (m_signalTrackers ?ch))"
      and b: "transmitTime scripted_ops ?ch
              = Inr (trk_transmitTime scripted_ops (hd (m_signalTrackers ?ch)))"
      by blast+
    from a show "Min (offset ` set (m_signalTrackers ?ch)) = - 1000"
      by (simp add: front)
    from b show "transmitTime scripted_ops ?ch = Inr (- 1000)"
      by (simp add: front scripted_transmitTime)
  qed
  ultimately show ?thesis by (simp only: simp_thms)
qed

end
